theory Spec2Isabelle
  imports Complex_Main "HOL-Library.DAList"
begin

section \<open>Data model\<close>

subsection \<open>JavaScript \<open>Map\<close> objects\<close>

text \<open>
  The payload table \<open>db\<close> and the node table \<open>nodes\<close> are JavaScript \<open>Map\<close>s: finite
  maps that remember the order in which their keys were first inserted and hold each key
  once.  They are modelled by association lists with distinct keys.  \<open>Map_set\<close> replaces
  the value of a key that is present where it stands and appends a new key at the end,
  \<open>Map_entries\<close> is \<open>Array.from(m.entries())\<close> and \<open>Map_from_entries\<close> is
  \<open>new Map(entries)\<close>, which sets the entries one after the other.
\<close>

definition Map_new :: "('k, 'v) alist" where
  "Map_new = DAList.empty"

definition Map_get :: "('k, 'v) alist \<Rightarrow> 'k \<Rightarrow> 'v option" where
  "Map_get m k = DAList.lookup m k"

definition Map_set :: "'k \<Rightarrow> 'v \<Rightarrow> ('k, 'v) alist \<Rightarrow> ('k, 'v) alist" where
  "Map_set k v m = DAList.update k v m"

definition Map_entries :: "('k, 'v) alist \<Rightarrow> ('k \<times> 'v) list" where
  "Map_entries m = DAList.impl_of m"

definition Map_from_entries :: "('k \<times> 'v) list \<Rightarrow> ('k, 'v) alist" where
  "Map_from_entries es = fold (\<lambda>(k, v) m. Map_set k v m) es Map_new"

subsection \<open>Nodes, parameters and the index state\<close>

text \<open>
  Vectors are lists of reals and the arithmetic of the model is exact.  Where the code
  converts a vector to single precision (\<open>new Float32Array\<close> in \<open>fromJSON\<close>), the
  rounding is a parameter of the model.  Identifiers are integers.
  The constructor takes the metric as a string; the two values the index recognises,
  \<open>'cosine'\<close> and \<open>'euclidean'\<close>, are the constructors of \<open>metric\<close>.
\<close>

type_synonym vec = "real list"

datatype metric = Cosine | Euclidean

datatype error = DimensionMismatch | DuplicateId

record node =
  id' :: int
  vector :: vec
  neighbors :: "int list list"

text \<open>
  The fields of class \<open>HNSW\<close> that \<open>db.ts\<close> passes to the constructor or assigns in
  \<open>fromJSON\<close>; \<open>HNSWWithDB extends HNSW\<close> adds the private field \<open>db\<close>.
\<close>

record hnsw =
  M :: int
  efConstruction :: int
  d :: "nat option"
  metric :: metric
  levelMax :: nat
  entryPointId :: "int option"
  nodes :: "(int, node) alist"

record 'a hnsw_with_db = hnsw +
  db :: "(int, 'a) alist"

record result =
  id' :: int
  score :: real

record 'a result_with_data = result +
  data :: "'a option"

section \<open>The index core\<close>

text \<open>
  Class \<open>HNSW\<close> (\<open>./main\<close>) and the similarity functions (\<open>./similarity\<close>) are
  imported by \<open>db.ts\<close> and are not part of the sources at hand.  The definitions of
  this section follow the specification of the index.
\<close>

subsection \<open>Similarity\<close>

definition dot :: "vec \<Rightarrow> vec \<Rightarrow> real" where
  "dot u v = sum_list (map2 (*) u v)"

text \<open>
  Modelled from the spec: \<open>cosineSimilarity\<close> of \<open>./similarity\<close> is missing.  The score is
  \<open>dot(u,v) / (\<parallel>u\<parallel>\<cdot>\<parallel>v\<parallel>)\<close>, and a vanishing norm gives similarity 0 instead of a division
  by zero.
\<close>

definition cosineSimilarity :: "vec \<Rightarrow> vec \<Rightarrow> real" where
  "cosineSimilarity u v =
     (let n = sqrt (dot u u) * sqrt (dot v v)
      in if n = 0 then 0 else dot u v / n)"

text \<open>
  Modelled from the spec: \<open>euclideanSimilarity\<close> of \<open>./similarity\<close> is missing.  The score
  is \<open>1 / (1 + distance(u,v))\<close>.
\<close>

definition euclideanSimilarity :: "vec \<Rightarrow> vec \<Rightarrow> real" where
  "euclideanSimilarity u v = 1 / (1 + sqrt (sum_list (map2 (\<lambda>a b. (a - b) * (a - b)) u v)))"

text \<open>
  Modelled from the spec: the scoring contract \<open>score(u, v, metric)\<close> of the missing
  similarity module, which fails with \<open>DimensionMismatch\<close> when the lengths differ.
\<close>

definition similarity :: "metric \<Rightarrow> vec \<Rightarrow> vec \<Rightarrow> error + real" where
  "similarity mt u v =
     (if length u \<noteq> length v then Inl DimensionMismatch
      else Inr (case mt of Cosine \<Rightarrow> cosineSimilarity u v | Euclidean \<Rightarrow> euclideanSimilarity u v))"

subsection \<open>Graph storage\<close>

text \<open>
  Modelled from the spec: the edge-list helper \<open>neighborsAt(layer)\<close> of the missing node
  module.  A node has no edges at a layer above its top layer.
\<close>

definition neighborsAt :: "node \<Rightarrow> nat \<Rightarrow> int list" where
  "neighborsAt nd l = (if l < length (neighbors nd) then neighbors nd ! l else [])"

text \<open>
  Modelled from the spec: the edge-list helper \<open>addNeighbor(layer, id)\<close> of the missing
  node module, applied to node \<open>i\<close> of the table.  Nothing is added for a node that is
  absent or that does not take part in the layer.
\<close>

definition addNeighbor :: "(int, node) alist \<Rightarrow> int \<Rightarrow> nat \<Rightarrow> int \<Rightarrow> (int, node) alist" where
  "addNeighbor ns i l j =
     (case Map_get ns i of
        None \<Rightarrow> ns
      | Some nd \<Rightarrow> Map_set i (nd\<lparr>neighbors := (neighbors nd)[l := neighborsAt nd l @ [j]]\<rparr>) ns)"

text \<open>
  The scores of the nodes with the given identifiers against \<open>q\<close>, in the order of the
  identifiers.  An identifier without a node has no vector to score and is passed over;
  a failing similarity fails the whole computation.
\<close>

fun scored :: "metric \<Rightarrow> (int, node) alist \<Rightarrow> vec \<Rightarrow> int list \<Rightarrow> error + (int \<times> real) list" where
  "scored mt ns q [] = Inr []"
| "scored mt ns q (i # is) =
     (case Map_get ns i of
        None \<Rightarrow> scored mt ns q is
      | Some nd \<Rightarrow>
          (case similarity mt q (vector nd) of
             Inl e \<Rightarrow> Inl e
           | Inr s \<Rightarrow>
               (case scored mt ns q is of
                  Inl e \<Rightarrow> Inl e
                | Inr r \<Rightarrow> Inr ((i, s) # r))))"

text \<open>The entry with the highest score, the earliest one among equals.\<close>

fun best :: "(int \<times> real) list \<Rightarrow> (int \<times> real) option" where
  "best [] = None"
| "best (x # xs) =
     (case best xs of
        None \<Rightarrow> Some x
      | Some y \<Rightarrow> if snd x < snd y then Some y else Some x)"

subsection \<open>Greedy descent\<close>

text \<open>
  Modelled from the spec: the single-best-neighbour greedy walk of the missing class
  \<open>HNSW\<close> (insertion step 3, search step 1).  At layer \<open>l\<close> the walk moves to the
  neighbour with the highest similarity to \<open>q\<close> until no neighbour improves on the
  current point.
\<close>

function greedy :: "metric \<Rightarrow> (int, node) alist \<Rightarrow> vec \<Rightarrow> nat \<Rightarrow> int \<times> real \<Rightarrow> error + (int \<times> real)" where
  "greedy mt ns q l (c, s) =
     (case Map_get ns c of
        None \<Rightarrow> Inr (c, s)
      | Some nd \<Rightarrow>
          (case scored mt ns q (neighborsAt nd l) of
             Inl e \<Rightarrow> Inl e
           | Inr cs \<Rightarrow>
               (case best cs of
                  None \<Rightarrow> Inr (c, s)
                | Some (n, sn) \<Rightarrow> if s < sn then greedy mt ns q l (n, sn) else Inr (c, s))))"
  by pat_completeness auto

lemma best_in_set: "best cs = Some p \<Longrightarrow> p \<in> set cs"
  by (induction cs arbitrary: p) (auto split: option.splits if_splits)

lemma scored_sound:
  "scored mt ns q js = Inr cs \<Longrightarrow> (n, sn) \<in> set cs \<Longrightarrow>
     n \<in> set js \<and> (\<exists>nd. Map_get ns n = Some nd \<and> similarity mt q (vector nd) = Inr sn)"
proof (induction js arbitrary: cs)
  case Nil
  then show ?case by simp
next
  case (Cons j js)
  show ?case
  proof (cases "Map_get ns j")
    case None
    with Cons show ?thesis by auto
  next
    case (Some nd)
    with Cons.prems(1) obtain s r where s: "similarity mt q (vector nd) = Inr s"
      and r: "scored mt ns q js = Inr r" and cs: "cs = (j, s) # r"
      by (auto split: sum.splits)
    show ?thesis
    proof (cases "(n, sn) = (j, s)")
      case True
      with Some s show ?thesis by simp
    next
      case False
      with cs Cons.prems(2) have "(n, sn) \<in> set r" by auto
      with Cons.IH [OF r] show ?thesis by simp
    qed
  qed
qed

lemma Map_get_entries: "Map_get ns n = Some nd \<Longrightarrow> (n, nd) \<in> set (Map_entries ns)"
  unfolding Map_get_def Map_entries_def lookup.rep_eq by (rule map_of_SomeD)

lemma filter_shrinks:
  assumes "x \<in> set xs" and "P x" and "\<not> Q x" and "\<And>y. Q y \<Longrightarrow> P y"
  shows "length (filter Q xs) < length (filter P xs)"
proof -
  have "filter Q xs = filter Q (filter P xs)"
    using assms(4) by (induction xs) auto
  moreover have "x \<in> set (filter P xs)"
    using assms(1,2) by simp
  ultimately show ?thesis
    using assms(3) length_filter_less [of x "filter P xs" Q] by simp
qed

text \<open>
  The walk stops: every move strictly raises the score of the current point, so the number
  of nodes that score higher than the current point falls.
\<close>

definition above :: "metric \<Rightarrow> (int, node) alist \<Rightarrow> vec \<Rightarrow> real \<Rightarrow> nat" where
  "above mt ns q s =
     length (filter (\<lambda>(i, nd). case similarity mt q (vector nd) of Inl e \<Rightarrow> False | Inr t \<Rightarrow> s < t)
               (Map_entries ns))"


termination greedy
proof (relation "measure (\<lambda>(mt, ns, q, l, (c, s)). above mt ns q s)")
  show "wf (measure (\<lambda>(mt, ns, q, l, (c, s)). above mt ns q s))"
    by simp
next
  fix mt ns q l c s nd cs x n sn
  assume sc: "scored mt ns q (neighborsAt nd l) = Inr cs"
    and b: "best cs = Some x" and x: "(n, sn) = x" and lt: "s < sn"
  from b x have "(n, sn) \<in> set cs"
    by (simp add: best_in_set)
  with sc obtain nd' where g: "Map_get ns n = Some nd'" and sim: "similarity mt q (vector nd') = Inr sn"
    using scored_sound by blast
  have "above mt ns q sn < above mt ns q s"
    unfolding above_def
    by (rule filter_shrinks [where x = "(n, nd')"]) (use g sim lt in \<open>auto simp: Map_get_entries split: sum.splits\<close>)
  then show "((mt, ns, q, l, n, sn), (mt, ns, q, l, c, s)) \<in> measure (\<lambda>(mt, ns, q, l, (c, s)). above mt ns q s)"
    by simp
qed


subsection \<open>Beam search\<close>

text \<open>
  The best-set is kept in descending order of score; a new entry goes behind the entries
  that score at least as much.
\<close>

fun insert_desc :: "int \<times> real \<Rightarrow> (int \<times> real) list \<Rightarrow> (int \<times> real) list" where
  "insert_desc c [] = [c]"
| "insert_desc c (x # xs) = (if snd x < snd c then c # x # xs else x # insert_desc c xs)"

text \<open>
  A scored neighbour is admitted when the best-set has not reached \<open>ef\<close> entries or its
  score beats the worst of the best-set, which is then evicted; an admitted neighbour
  becomes a candidate to expand.
\<close>

definition admit :: "nat \<Rightarrow> int \<times> real \<Rightarrow> (int \<times> real) list \<times> (int \<times> real) list
    \<Rightarrow> (int \<times> real) list \<times> (int \<times> real) list" where
  "admit ef c = (\<lambda>(cands, W).
     if length W < ef \<or> (W \<noteq> [] \<and> snd (last W) < snd c)
     then (cands @ [c], take ef (insert_desc c W))
     else (cands, W))"

text \<open>
  Modelled from the spec: the candidate expansion of the missing class \<open>HNSW\<close> (search
  step 2, insertion step 4).  The best unexpanded candidate is popped and its neighbours
  at layer \<open>l\<close> are scored and admitted; the search ends when no candidate is left or
  the best candidate cannot beat the worst of the best-set.  The identifiers already
  scored are remembered in \<open>visited\<close>, so that no node is admitted twice.
\<close>

function beam :: "metric \<Rightarrow> (int, node) alist \<Rightarrow> vec \<Rightarrow> nat \<Rightarrow> nat \<Rightarrow>
    (int \<times> real) list \<Rightarrow> (int \<times> real) list \<Rightarrow> int list \<Rightarrow> error + (int \<times> real) list" where
  "beam mt ns q l ef cands W visited =
     (case best cands of
        None \<Rightarrow> Inr W
      | Some c \<Rightarrow>
          if W \<noteq> [] \<and> snd c < snd (last W) then Inr W
          else
            (case Map_get ns (fst c) of
               None \<Rightarrow> beam mt ns q l ef (remove1 c cands) W visited
             | Some nd \<Rightarrow>
                 (case scored mt ns q (filter (\<lambda>i. i \<notin> set visited) (remdups (neighborsAt nd l))) of
                    Inl e \<Rightarrow> Inl e
                  | Inr new \<Rightarrow>
                      (case fold (admit ef) new (remove1 c cands, W) of
                         (cands', W') \<Rightarrow> beam mt ns q l ef cands' W' (visited @ map fst new)))))"
  by pat_completeness auto

text \<open>
  The search stops: an expansion that scores a new node lowers the number of nodes not yet
  visited, and any other step only removes the popped candidate.
\<close>

definition unvisited :: "(int, node) alist \<Rightarrow> int list \<Rightarrow> nat" where
  "unvisited ns visited = length (filter (\<lambda>(i, nd). i \<notin> set visited) (Map_entries ns))"

lemma remove1_shorter: "c \<in> set cands \<Longrightarrow> length (remove1 c cands) < length cands"
  by (simp add: length_remove1) (cases cands; simp)

definition beam_order :: "((metric \<times> (int, node) alist \<times> vec \<times> nat \<times> nat \<times>
    (int \<times> real) list \<times> (int \<times> real) list \<times> int list) \<times> _) set" where
  "beam_order = measures [\<lambda>(mt, ns, q, l, ef, cands, W, visited). unvisited ns visited,
                        \<lambda>(mt, ns, q, l, ef, cands, W, visited). length cands]"

lemma beam_skip_decreases:
  assumes "best cands = Some c"
  shows "((mt, ns, q, l, ef, remove1 c cands, W, visited), (mt, ns, q, l, ef, cands, W, visited)) \<in> beam_order"
proof -
  from assms have "length (remove1 c cands) < length cands"
    by (simp add: best_in_set remove1_shorter)
  then show ?thesis
    by (simp add: beam_order_def)
qed

lemma beam_expand_decreases:
  assumes b: "best cands = Some c"
    and sc: "scored mt ns q (filter (\<lambda>i. i \<notin> set visited) js) = Inr new"
    and f: "(cands', W') = fold (admit ef) new (remove1 c cands, W)"
  shows "((mt, ns, q, l, ef, cands', W', visited @ map fst new), (mt, ns, q, l, ef, cands, W, visited)) \<in> beam_order"
proof (cases new)
  case Nil
  with f have "cands' = remove1 c cands"
    by simp
  moreover from b have "length (remove1 c cands) < length cands"
    by (simp add: best_in_set remove1_shorter)
  ultimately show ?thesis
    using Nil by (simp add: beam_order_def)
next
  case (Cons p ps)
  obtain n sn where p: "p = (n, sn)"
    by (cases p)
  with Cons have "(n, sn) \<in> set new"
    by simp
  from scored_sound [OF sc this] obtain nd' where n: "n \<notin> set visited" and g: "Map_get ns n = Some nd'"
    by auto
  have "unvisited ns (visited @ map fst new) < unvisited ns visited"
    unfolding unvisited_def
  proof (rule filter_shrinks [where x = "(n, nd')"])
    show "(n, nd') \<in> set (Map_entries ns)"
      using g by (rule Map_get_entries)
    show "case (n, nd') of (i, nd) \<Rightarrow> i \<notin> set visited"
      using n by simp
    show "\<not> (case (n, nd') of (i, nd) \<Rightarrow> i \<notin> set (visited @ map fst new))"
      using Cons p by simp
    show "\<And>y. (case y of (i, nd) \<Rightarrow> i \<notin> set (visited @ map fst new)) \<Longrightarrow> (case y of (i, nd) \<Rightarrow> i \<notin> set visited)"
      by auto
  qed
  then show ?thesis
    by (simp add: beam_order_def)
qed

termination beam
proof (relation beam_order)
  show "wf beam_order"
    by (simp add: beam_order_def)
qed (erule beam_skip_decreases, erule (2) beam_expand_decreases)


subsection \<open>Search\<close>

text \<open>The greedy walk carried through the given layers, from the first to the last.\<close>

fun descend :: "metric \<Rightarrow> (int, node) alist \<Rightarrow> vec \<Rightarrow> nat list \<Rightarrow> int \<times> real \<Rightarrow> error + (int \<times> real)" where
  "descend mt ns q [] p = Inr p"
| "descend mt ns q (l # ls) p =
     (case greedy mt ns q l p of
        Inl e \<Rightarrow> Inl e
      | Inr p' \<Rightarrow> descend mt ns q ls p')"

text \<open>The layers \<open>hi, hi - 1, \<dots>, lo\<close> in this order.\<close>

definition layers_down :: "nat \<Rightarrow> nat \<Rightarrow> nat list" where
  "layers_down hi lo = rev [lo..<Suc hi]"

text \<open>
  The found entries in descending order of score; entries of equal score keep the order
  in which their nodes were inserted.
\<close>

definition ranked :: "(int, node) alist \<Rightarrow> (int \<times> real) list \<Rightarrow> (int \<times> real) list" where
  "ranked ns W =
     sort_key (\<lambda>p. - snd p) (concat (map (\<lambda>(i, nd). filter (\<lambda>p. fst p = i) W) (Map_entries ns)))"

text \<open>
  Modelled from the spec: \<open>searchKNN\<close> of the missing class \<open>HNSW\<close>.  The result is
  empty when \<open>k \<le> 0\<close> or the graph is empty; a query whose length disagrees with the
  dimension of the index fails with \<open>DimensionMismatch\<close>.  Otherwise the greedy descent
  from the entry point through the layers above layer 0 is followed by the beam search
  at layer 0 with width \<open>ef = max(k, efConstruction)\<close>, and the top \<open>k\<close> of the best-set
  are returned.
\<close>

definition searchKNN :: "'z hnsw_scheme \<Rightarrow> vec \<Rightarrow> int \<Rightarrow> error + result list" where
  "searchKNN h q k =
     (if k \<le> 0 \<or> Map_entries (nodes h) = [] then Inr []
      else if (case d h of None \<Rightarrow> False | Some n \<Rightarrow> length q \<noteq> n) then Inl DimensionMismatch
      else
        (case entryPointId h of
           None \<Rightarrow> Inr []
         | Some ep \<Rightarrow>
             (case Map_get (nodes h) ep of
                None \<Rightarrow> Inr []
              | Some nd \<Rightarrow>
                  (case similarity (metric h) q (vector nd) of
                     Inl e \<Rightarrow> Inl e
                   | Inr s \<Rightarrow>
                       (case descend (metric h) (nodes h) q (layers_down (levelMax h) 1) (ep, s) of
                          Inl e \<Rightarrow> Inl e
                        | Inr p \<Rightarrow>
                            (case beam (metric h) (nodes h) q 0 (max (nat k) (nat (efConstruction h)))
                                    [p] [p] [fst p] of
                               Inl e \<Rightarrow> Inl e
                             | Inr W \<Rightarrow>
                                 Inr (map (\<lambda>(i, s). \<lparr>id' = i, score = s\<rparr>)
                                        (take (nat k) (ranked (nodes h) W)))))))))"

subsection \<open>Insertion\<close>

text \<open>
  Modelled from the spec: the diversity-aware neighbour selection of the missing class
  \<open>HNSW\<close> (insertion step 4).  The candidates come in descending order of similarity to
  the reference point; a candidate is accepted unless it is closer (more similar) to a
  neighbour accepted before than to the reference point, until \<open>m\<close> are accepted.
\<close>

fun select_neighbors :: "metric \<Rightarrow> (int, node) alist \<Rightarrow> nat \<Rightarrow> (int \<times> real) list \<Rightarrow> int list \<Rightarrow> error + int list" where
  "select_neighbors mt ns m [] acc = Inr acc"
| "select_neighbors mt ns m ((c, s) # cs) acc =
     (if m \<le> length acc then Inr acc
      else
        (case Map_get ns c of
           None \<Rightarrow> select_neighbors mt ns m cs acc
         | Some nd \<Rightarrow>
             (case scored mt ns (vector nd) acc of
                Inl e \<Rightarrow> Inl e
              | Inr ss \<Rightarrow>
                  if list_ex (\<lambda>p. s < snd p) ss then select_neighbors mt ns m cs acc
                  else select_neighbors mt ns m cs (acc @ [c]))))"

text \<open>
  Modelled from the spec: the pruning of insertion step 5.  When the edge list of node
  \<open>a\<close> at layer \<open>l\<close> exceeds \<open>m\<close>, it is cut back to the best \<open>m\<close> by the same
  selection, run over the whole edge list of \<open>a\<close>.
\<close>

definition prune :: "metric \<Rightarrow> nat \<Rightarrow> int \<Rightarrow> nat \<Rightarrow> (int, node) alist \<Rightarrow> error + (int, node) alist" where
  "prune mt m a l ns =
     (case Map_get ns a of
        None \<Rightarrow> Inr ns
      | Some nd \<Rightarrow>
          if length (neighborsAt nd l) \<le> m then Inr ns
          else
            (case scored mt ns (vector nd) (neighborsAt nd l) of
               Inl e \<Rightarrow> Inl e
             | Inr cs \<Rightarrow>
                 (case select_neighbors mt ns m (sort_key (\<lambda>p. - snd p) cs) [] of
                    Inl e \<Rightarrow> Inl e
                  | Inr keep \<Rightarrow> Inr (Map_set a (nd\<lparr>neighbors := (neighbors nd)[l := keep]\<rparr>) ns))))"

text \<open>
  The edges between the new node \<open>i\<close> and each accepted neighbour, as the two-step update
  of the spec: add \<open>i \<rightarrow> a\<close>, add \<open>a \<rightarrow> i\<close>, then prune the list of \<open>a\<close>.
\<close>

fun connect :: "metric \<Rightarrow> nat \<Rightarrow> int \<Rightarrow> nat \<Rightarrow> int list \<Rightarrow> (int, node) alist \<Rightarrow> error + (int, node) alist" where
  "connect mt m i l [] ns = Inr ns"
| "connect mt m i l (a # as) ns =
     (case prune mt m a l (addNeighbor (addNeighbor ns i l a) a l i) of
        Inl e \<Rightarrow> Inl e
      | Inr ns' \<Rightarrow> connect mt m i l as ns')"

text \<open>
  Insertion step 4 for the given layers, from the first to the last: a beam search of
  width \<open>ef\<close> from the current entry points, the selection of up to \<open>m\<close> neighbours among
  what it found, and the edges.  What the beam search found at a layer are the entry
  points of the next.
\<close>

fun insert_layers :: "metric \<Rightarrow> nat \<Rightarrow> nat \<Rightarrow> int \<Rightarrow> vec \<Rightarrow> nat list \<Rightarrow> (int \<times> real) list \<Rightarrow>
    (int, node) alist \<Rightarrow> error + (int, node) alist" where
  "insert_layers mt m ef i v [] eps ns = Inr ns"
| "insert_layers mt m ef i v (l # ls) eps ns =
     (case beam mt ns v l ef eps (take ef (sort_key (\<lambda>p. - snd p) eps)) (i # map fst eps) of
        Inl e \<Rightarrow> Inl e
      | Inr W \<Rightarrow>
          (case select_neighbors mt ns m W [] of
             Inl e \<Rightarrow> Inl e
           | Inr sel \<Rightarrow>
               (case connect mt m i l sel ns of
                  Inl e \<Rightarrow> Inl e
                | Inr ns' \<Rightarrow> insert_layers mt m ef i v ls W ns')))"

text \<open>
  The node table after the insertion of node \<open>i\<close> with vector \<open>v\<close> and top layer \<open>lvl\<close>
  into a graph with entry point \<open>ep\<close>: greedy descent through the layers above \<open>lvl\<close>
  (step 3), then the edges of the layers from \<open>min(lvl, levelMax)\<close> down to 0 (steps 4
  and 5).
\<close>

definition link_node :: "'z hnsw_scheme \<Rightarrow> int \<Rightarrow> vec \<Rightarrow> nat \<Rightarrow> int \<Rightarrow> node \<Rightarrow> error + (int, node) alist" where
  "link_node h i v lvl ep epnd =
     (case similarity (metric h) v (vector epnd) of
        Inl e \<Rightarrow> Inl e
      | Inr s \<Rightarrow>
          (case descend (metric h) (nodes h) v (layers_down (levelMax h) (Suc lvl)) (ep, s) of
             Inl e \<Rightarrow> Inl e
           | Inr p \<Rightarrow>
               insert_layers (metric h) (nat (M h)) (nat (efConstruction h)) i v
                 (layers_down (min lvl (levelMax h)) 0) [p]
                 (Map_set i \<lparr>node.id' = i, vector = v, neighbors = replicate (Suc lvl) []\<rparr> (nodes h))))"

text \<open>
  Modelled from the spec: \<open>addPoint\<close> of the missing class \<open>HNSW\<close>.  The top layer
  \<open>lvl\<close> of the new node is the random draw of step 2, here an argument.  The call
  returns the error it raises, if any, and the state it leaves.  An identifier that is
  present fails with \<open>DuplicateId\<close> and a vector of the wrong length with
  \<open>DimensionMismatch\<close>, both without mutation; the first vector fixes the dimension.
  In an empty graph the new node becomes the entry point and no edge is built (step 1);
  a new node above \<open>levelMax\<close> becomes the entry point (step 6).
\<close>

definition addPoint :: "'z hnsw_scheme \<Rightarrow> int \<Rightarrow> vec \<Rightarrow> nat \<Rightarrow> error option \<times> 'z hnsw_scheme" where
  "addPoint h i v lvl =
     (if Map_get (nodes h) i \<noteq> None then (Some DuplicateId, h)
      else if (case d h of None \<Rightarrow> False | Some n \<Rightarrow> length v \<noteq> n) then (Some DimensionMismatch, h)
      else
        (case (case entryPointId h of
                 None \<Rightarrow> None
               | Some ep \<Rightarrow> (case Map_get (nodes h) ep of None \<Rightarrow> None | Some epnd \<Rightarrow> Some (ep, epnd))) of
           None \<Rightarrow>
             (None, h\<lparr>d := Some (length v),
                      levelMax := lvl,
                      entryPointId := Some i,
                      nodes := Map_set i \<lparr>node.id' = i, vector = v, neighbors = replicate (Suc lvl) []\<rparr>
                                 (nodes h)\<rparr>)
         | Some (ep, epnd) \<Rightarrow>
             (case link_node h i v lvl ep epnd of
                Inl e \<Rightarrow> (Some e, h)
              | Inr ns \<Rightarrow>
                  (None, h\<lparr>d := Some (length v),
                           levelMax := max lvl (levelMax h),
                           entryPointId := (if levelMax h < lvl then Some i else entryPointId h),
                           nodes := ns\<rparr>))))"

subsection \<open>Construction and the portable record\<close>

text \<open>
  Modelled from the spec: the constructor of the missing class \<open>HNSW\<close>, reached from
  \<open>db.ts\<close> by \<open>super(M, efConstruction, d, metric)\<close>.  It stores the four parameters and
  starts with an empty graph without entry point; \<open>ext\<close> stands for the fields a
  subclass adds.
\<close>

definition HNSW_init :: "int \<Rightarrow> int \<Rightarrow> nat option \<Rightarrow> metric \<Rightarrow> 'z \<Rightarrow> 'z hnsw_scheme" where
  "HNSW_init m ef dm mt ext =
     \<lparr>M = m, efConstruction = ef, d = dm, metric = mt,
      levelMax = 0, entryPointId = None, nodes = Map_new, \<dots> = ext\<rparr>"

text \<open>
  The record of \<open>toPortable\<close>, with the field names \<open>fromJSON\<close> of \<open>db.ts\<close> reads
  (\<open>levelMax\<close> for the \<open>maxLayer\<close> of the spec) and the nodes as the list of pairs
  \<open>[id, node]\<close> that \<open>fromJSON\<close> takes apart.  \<open>db.ts\<close> adds the field \<open>db\<close>, which a
  record of the base class does not have (\<open>None\<close>).
\<close>

record hnsw_json =
  jM :: int
  jefConstruction :: int
  jmetric :: metric
  jd :: "nat option"
  jlevelMax :: nat
  jentryPointId :: "int option"
  jnodes :: "(int \<times> node) list"

record 'a hnsw_with_db_json = hnsw_json +
  jdb :: "(int \<times> 'a) list option"

text \<open>
  Modelled from the spec: \<open>toJSON\<close> of the missing class \<open>HNSW\<close> (\<open>toPortable\<close>), which
  captures \<open>M\<close>, \<open>efConstruction\<close>, \<open>metric\<close>, \<open>d\<close>, the top layer, the entry point and
  the nodes, the vectors as their literal numeric sequence.
\<close>

definition HNSW_toJSON :: "'z hnsw_scheme \<Rightarrow> hnsw_json" where
  "HNSW_toJSON h =
     \<lparr>jM = M h, jefConstruction = efConstruction h, jmetric = metric h, jd = d h,
      jlevelMax = levelMax h, jentryPointId = entryPointId h, jnodes = Map_entries (nodes h)\<rparr>"

section \<open>The payload decorator (\<open>db.ts\<close>)\<close>

text \<open>
  \<open>db.ts\<close> holds class \<open>HNSWWithDB\<close> twice: a placeholder without payload table, and
  the full class, with the same constructor, that the definitions below follow.
\<close>

text \<open>
  \<open>constructor(M = 16, efConstruction = 200, d = null, metric = 'cosine')\<close>: an argument
  that is left out (\<open>None\<close>) takes its default, then the constructor of the base class
  runs; \<open>db\<close> starts as an empty \<open>Map\<close>.
\<close>

definition HNSWWithDB_new :: "int option \<Rightarrow> int option \<Rightarrow> nat option option \<Rightarrow> metric option \<Rightarrow> 'a hnsw_with_db" where
  "HNSWWithDB_new m ef dm mt =
     HNSW_init (case m of None \<Rightarrow> 16 | Some x \<Rightarrow> x)
               (case ef of None \<Rightarrow> 200 | Some x \<Rightarrow> x)
               (case dm of None \<Rightarrow> None | Some x \<Rightarrow> x)
               (case mt of None \<Rightarrow> Cosine | Some x \<Rightarrow> x)
               (hnsw_with_db.fields Map_new)"

text \<open>
  \<open>addPointWithData\<close>: \<open>await this.addPoint(id, vector); this.db.set(id, data)\<close>.  When
  \<open>addPoint\<close> throws, the second statement is not reached.  The call returns the error,
  if any, and the state it leaves; \<open>lvl\<close> is the top layer that \<open>addPoint\<close> draws.
\<close>

definition addPointWithData :: "'a hnsw_with_db \<Rightarrow> int \<Rightarrow> vec \<Rightarrow> 'a \<Rightarrow> nat \<Rightarrow> error option \<times> 'a hnsw_with_db" where
  "addPointWithData h i v x lvl =
     (case addPoint h i v lvl of
        (Some e, h') \<Rightarrow> (Some e, h')
      | (None, h') \<Rightarrow> (None, h'\<lparr>db := Map_set i x (db h')\<rparr>))"

text \<open>\<open>getPointData\<close>: \<open>this.db.get(id)\<close>, with \<open>None\<close> for \<open>undefined\<close>.\<close>

definition getPointData :: "'a hnsw_with_db \<Rightarrow> int \<Rightarrow> 'a option" where
  "getPointData h i = Map_get (db h) i"

text \<open>
  \<open>searchKNNWithData\<close>: every result of \<open>searchKNN\<close> is copied and given the field
  \<open>data\<close>.
\<close>

definition searchKNNWithData :: "'a hnsw_with_db \<Rightarrow> vec \<Rightarrow> int \<Rightarrow> error + 'a result_with_data list" where
  "searchKNNWithData h query k =
     (case searchKNN h query k of
        Inl e \<Rightarrow> Inl e
      | Inr results \<Rightarrow>
          Inr (map (\<lambda>r. \<lparr>id' = id' r, score = score r, data = getPointData h (id' r)\<rparr>) results))"

text \<open>\<open>toJSON\<close>: the record of the base class with the entries of \<open>db\<close> added.\<close>

definition toJSON :: "'a hnsw_with_db \<Rightarrow> 'a hnsw_with_db_json" where
  "toJSON h =
     (let baseJSON = HNSW_toJSON h
      in hnsw_json.extend baseJSON (hnsw_with_db_json.fields (Some (Map_entries (db h)))))"

text \<open>
  \<open>new Float32Array(node.vector)\<close> rounds every component to single precision.  The
  rounding of one number is the parameter \<open>fround\<close>; nothing is assumed of it but what a
  statement says, so that what holds for every \<open>fround\<close> holds for the rounding of the
  machine.  (A number beyond the range of single precision becomes \<open>Infinity\<close>, which
  is no real number: such vectors are outside the model.)
\<close>

definition Float32Array :: "(real \<Rightarrow> real) \<Rightarrow> vec \<Rightarrow> vec" where
  "Float32Array fround v = map fround v"

text \<open>
  \<open>fromJSON\<close>: a new instance from \<open>json.M\<close> and \<open>json.efConstruction\<close> alone, then
  \<open>levelMax\<close>, \<open>entryPointId\<close> and \<open>nodes\<close> are assigned, every node with its vector
  converted to single precision, and \<open>db\<close> when the record has one (an array is truthy,
  also when it is empty).
\<close>

definition fromJSON :: "(real \<Rightarrow> real) \<Rightarrow> 'a hnsw_with_db_json \<Rightarrow> 'a hnsw_with_db" where
  "fromJSON fround json =
     (let hnsw0 = HNSWWithDB_new (Some (jM json)) (Some (jefConstruction json)) None None;
          hnsw1 = hnsw0\<lparr>levelMax := jlevelMax json\<rparr>;
          hnsw2 = hnsw1\<lparr>entryPointId := jentryPointId json\<rparr>;
          hnsw3 = hnsw2\<lparr>nodes := Map_from_entries
                    (map (\<lambda>(i, nd). (i, nd\<lparr>vector := Float32Array fround (vector nd)\<rparr>)) (jnodes json))\<rparr>
      in case jdb json of
           None \<Rightarrow> hnsw3
         | Some entries \<Rightarrow> hnsw3\<lparr>db := Map_from_entries entries\<rparr>)"

section \<open>Vector hygiene (\<open>l2Normalize\<close>)\<close>

text \<open>
  \<open>l2Normalize\<close> of the semantic search service: the loop sums the squares, \<open>norm || 1e-9\<close>
  replaces a sum of 0 by \<open>1e-9\<close>, and every component is multiplied by
  \<open>1 / Math.sqrt(\<dots>)\<close>.
\<close>

definition l2Normalize :: "vec \<Rightarrow> vec" where
  "l2Normalize v =
     (let norm = foldl (\<lambda>norm x. norm + x * x) 0 v;
          norm = 1 / sqrt (if norm = 0 then 1 / 10 ^ 9 else norm)
      in map (\<lambda>x. x * norm) v)"

text \<open>
  The Euclidean norm of a vector, the notion of the specification in which the unit length
  of the result is stated.
\<close>

definition l2norm :: "vec \<Rightarrow> real" where
  "l2norm v = sqrt (\<Sum>x\<leftarrow>v. x * x)"

section \<open>Histories of calls\<close>

text \<open>
  The mutating calls a client makes on an instance, with the top layer drawn by each
  insertion.  A client that catches the error of a failed call goes on with the state the
  call left.
\<close>

datatype 'a call = AddPoint int vec nat | AddPointWithData int vec 'a nat

fun perform :: "'a call \<Rightarrow> 'a hnsw_with_db \<Rightarrow> error option \<times> 'a hnsw_with_db" where
  "perform (AddPoint i v lvl) h = addPoint h i v lvl"
| "perform (AddPointWithData i v x lvl) h = addPointWithData h i v x lvl"

fun run :: "'a call list \<Rightarrow> 'a hnsw_with_db \<Rightarrow> 'a hnsw_with_db" where
  "run [] h = h"
| "run (c # cs) h = run cs (snd (perform c h))"

text \<open>
  Two notions of the specification, with no counterpart in the code: the payloads stored
  by the calls of \<open>addPointWithData\<close> that completed, oldest first, and the payload
  stored most recently under an identifier.
\<close>

fun stored :: "'a call list \<Rightarrow> 'a hnsw_with_db \<Rightarrow> (int \<times> 'a) list" where
  "stored [] h = []"
| "stored (AddPoint i v lvl # cs) h = stored cs (snd (addPoint h i v lvl))"
| "stored (AddPointWithData i v x lvl # cs) h =
     (if fst (addPointWithData h i v x lvl) = None then [(i, x)] else [])
       @ stored cs (snd (addPointWithData h i v x lvl))"

definition most_recent :: "(int \<times> 'a) list \<Rightarrow> int \<Rightarrow> 'a option" where
  "most_recent ps i = map_of (rev ps) i"



section \<open>Properties\<close>

declare greedy.simps [simp del] beam.simps [simp del]

subsection \<open>The operations of \<open>Map\<close>\<close>

lemma Map_get_set: "Map_get (Map_set k v m) k' = (if k' = k then Some v else Map_get m k')"
  by (simp add: Map_get_def Map_set_def)

lemma update_fresh: "k \<notin> fst ` set ys \<Longrightarrow> AList.update k v ys = ys @ [(k, v)]"
  by (induction ys) auto

lemma fold_update_distinct:
  "distinct (map fst (ys @ xs)) \<Longrightarrow> fold (\<lambda>(k, v). AList.update k v) xs ys = ys @ xs"
proof (induction xs arbitrary: ys)
  case Nil
  then show ?case by simp
next
  case (Cons x xs)
  obtain k v where x: "x = (k, v)"
    by (cases x)
  from Cons.prems x have fresh: "k \<notin> fst ` set ys"
    by auto
  from Cons.prems x have "distinct (map fst ((ys @ [(k, v)]) @ xs))"
    by auto
  from Cons.IH [OF this] fresh x show ?case
    by (simp add: update_fresh)
qed

lemma impl_of_fold_set:
  "DAList.impl_of (fold (\<lambda>(k, v) m. Map_set k v m) xs m) = fold (\<lambda>(k, v). AList.update k v) xs (DAList.impl_of m)"
  by (induction xs arbitrary: m) (auto simp: Map_set_def update.rep_eq)

lemma Map_from_entries_entries: "Map_from_entries (Map_entries m) = m"
proof -
  have "DAList.impl_of (Map_from_entries (Map_entries m)) = DAList.impl_of m"
    unfolding Map_from_entries_def Map_entries_def Map_new_def impl_of_fold_set empty.rep_eq
    by (rule fold_update_distinct [of "[]", simplified]) simp
  then show ?thesis
    by (simp add: alist_eq_iff)
qed

text \<open>The equations that evaluate the operations on a concrete instance.\<close>

lemmas Map_eval = Map_new_def Map_get_def Map_set_def Map_entries_def Map_from_entries_def
  lookup.rep_eq update.rep_eq empty.rep_eq

lemmas index_eval = HNSWWithDB_new_def HNSW_init_def addPointWithData_def addPoint_def
  hnsw_with_db.defs searchKNN_def similarity_def euclideanSimilarity_def cosineSimilarity_def dot_def
  layers_down_def neighborsAt_def ranked_def admit_def beam.simps

lemmas json_eval = toJSON_def fromJSON_def HNSW_toJSON_def hnsw_json.defs hnsw_with_db_json.defs
  Float32Array_def

subsection \<open>Construction\<close>

text \<open>
  Claim C6.  Without arguments the constructor yields \<open>M = 16\<close>, \<open>efConstruction = 200\<close>,
  \<open>d = null\<close> and the metric cosine; with arguments it stores the \<open>M\<close>, \<open>efConstruction\<close>,
  \<open>d\<close> and metric it is given.
\<close>

theorem constructor_parameters:
  "M (HNSWWithDB_new None None None None :: 'a hnsw_with_db) = 16
   \<and> efConstruction (HNSWWithDB_new None None None None :: 'a hnsw_with_db) = 200
   \<and> d (HNSWWithDB_new None None None None :: 'a hnsw_with_db) = None
   \<and> metric (HNSWWithDB_new None None None None :: 'a hnsw_with_db) = Cosine
   \<and> M (HNSWWithDB_new (Some m) (Some ef) (Some dm) (Some mt) :: 'a hnsw_with_db) = m
   \<and> efConstruction (HNSWWithDB_new (Some m) (Some ef) (Some dm) (Some mt) :: 'a hnsw_with_db) = ef
   \<and> d (HNSWWithDB_new (Some m) (Some ef) (Some dm) (Some mt) :: 'a hnsw_with_db) = dm
   \<and> metric (HNSWWithDB_new (Some m) (Some ef) (Some dm) (Some mt) :: 'a hnsw_with_db) = mt"
  by (simp add: HNSWWithDB_new_def HNSW_init_def)

subsection \<open>The payload table under insertion\<close>

lemma db_addPoint: "db (snd (addPoint h i v lvl)) = db h"
  by (simp add: addPoint_def split: option.splits sum.splits prod.splits)

lemma db_addPointWithData:
  "db (snd (addPointWithData h i v x lvl)) =
     (if fst (addPointWithData h i v x lvl) = None then Map_set i x (db h) else db h)"
proof -
  obtain r h1 where a: "addPoint h i v lvl = (r, h1)"
    by (cases "addPoint h i v lvl")
  then have "db h1 = db h"
    using db_addPoint [of h i v lvl] by simp
  with a show ?thesis
    by (cases r) (simp_all add: addPointWithData_def)
qed

lemma getPointData_addPoint: "getPointData (snd (addPoint h j v lvl)) i = getPointData h i"
  by (simp add: getPointData_def db_addPoint)

lemma getPointData_addPointWithData:
  "getPointData (snd (addPointWithData h j v x lvl)) i =
     (if fst (addPointWithData h j v x lvl) = None \<and> j = i then Some x else getPointData h i)"
  by (auto simp: getPointData_def db_addPointWithData Map_get_set)

text \<open>
  Claim C4.  When \<open>addPointWithData(id, vector, data)\<close> completes without error,
  \<open>getPointData(id)\<close> returns that data and the payload of every other identifier is what
  it was before the call.
\<close>

theorem addPointWithData_stores:
  assumes "addPointWithData h i v x lvl = (None, h')"
  shows "getPointData h' i = Some x \<and> (\<forall>j. j \<noteq> i \<longrightarrow> getPointData h' j = getPointData h j)"
proof -
  obtain r h1 where a: "addPoint h i v lvl = (r, h1)"
    by (cases "addPoint h i v lvl")
  with assms have r: "r = None" and h': "h' = h1\<lparr>db := Map_set i x (db h1)\<rparr>"
    by (auto simp: addPointWithData_def split: option.splits)
  from a have "db h1 = db h"
    using db_addPoint [of h i v lvl] by simp
  with h' show ?thesis
    by (simp add: getPointData_def Map_get_set)
qed

text \<open>The first insertion into a new instance completes and stores its payload.\<close>

theorem addPointWithData_stores_witness:
  "fst (addPointWithData (HNSWWithDB_new None None None None) 0 [1] ''a'' 0) = None
   \<and> getPointData (snd (addPointWithData (HNSWWithDB_new None None None None) 0 [1] ''a'' 0)) 0 = Some ''a''
   \<and> getPointData (snd (addPointWithData (HNSWWithDB_new None None None None) 0 [1] ''a'' 0)) 7 = None"
proof -
  let ?h = "HNSWWithDB_new None None None None :: string hnsw_with_db"
  have ok: "fst (addPointWithData ?h 0 [1] ''a'' 0) = None"
    by (simp add: Map_eval index_eval)
  then have a: "addPointWithData ?h 0 [1] ''a'' 0 = (None, snd (addPointWithData ?h 0 [1] ''a'' 0))"
    by (simp add: prod_eq_iff)
  have "getPointData ?h 7 = None"
    by (simp add: getPointData_def Map_eval index_eval)
  with addPointWithData_stores [OF a] ok show ?thesis
    by simp
qed

text \<open>
  Claim C5.  When the underlying \<open>addPoint(id, vector)\<close> fails, \<open>addPointWithData\<close> fails
  with the same error and the payload table is unchanged; in particular nothing is stored
  under \<open>id\<close>.
\<close>

theorem addPointWithData_failure:
  assumes "fst (addPoint h i v lvl) = Some e"
  shows "fst (addPointWithData h i v x lvl) = Some e
     \<and> db (snd (addPointWithData h i v x lvl)) = db h
     \<and> getPointData (snd (addPointWithData h i v x lvl)) i = getPointData h i"
proof -
  obtain h1 where a: "addPoint h i v lvl = (Some e, h1)"
    using assms by (cases "addPoint h i v lvl") simp
  then have "addPointWithData h i v x lvl = (Some e, h1)"
    by (simp add: addPointWithData_def)
  moreover from a have "db h1 = db h"
    using db_addPoint [of h i v lvl] by simp
  ultimately show ?thesis
    by (simp add: getPointData_def)
qed

text \<open>
  A second insertion under identifier 0 fails with \<open>DuplicateId\<close>, and a vector of two
  components fails with \<open>DimensionMismatch\<close> in an index of dimension 1; neither stores a
  payload.
\<close>

theorem addPointWithData_failure_witness:
  "fst (addPointWithData (snd (addPoint (HNSWWithDB_new None None None None) 0 [1] 0)) 0 [1] ''a'' 0) = Some DuplicateId
   \<and> getPointData (snd (addPointWithData (snd (addPoint (HNSWWithDB_new None None None None) 0 [1] 0)) 0 [1] ''a'' 0)) 0 = None
   \<and> fst (addPointWithData (snd (addPoint (HNSWWithDB_new None None None None) 0 [1] 0)) 1 [1, 2] ''a'' 0) = Some DimensionMismatch
   \<and> getPointData (snd (addPointWithData (snd (addPoint (HNSWWithDB_new None None None None) 0 [1] 0)) 1 [1, 2] ''a'' 0)) 1 = None"
proof -
  let ?h = "snd (addPoint (HNSWWithDB_new None None None None :: string hnsw_with_db) 0 [1] 0)"
  have dup: "fst (addPoint ?h 0 [1] 0) = Some DuplicateId"
    by (simp add: Map_eval index_eval)
  have dim: "fst (addPoint ?h 1 [1, 2] 0) = Some DimensionMismatch"
    by (simp add: Map_eval index_eval)
  have none: "getPointData ?h 0 = None" "getPointData ?h 1 = None"
    by (simp_all add: getPointData_def Map_eval index_eval)
  from addPointWithData_failure [OF dup, of "''a''"] addPointWithData_failure [OF dim, of "''a''"] none
  show ?thesis
    by simp
qed

subsection \<open>Search results with payloads\<close>

lemma getPointData_run:
  "getPointData (run calls h) i =
     (case most_recent (stored calls h) i of None \<Rightarrow> getPointData h i | Some x \<Rightarrow> Some x)"
proof (induction calls arbitrary: h)
  case Nil
  then show ?case
    by (simp add: most_recent_def)
next
  case (Cons c cs)
  show ?case
  proof (cases c)
    case (AddPoint j v lvl)
    then show ?thesis
      by (simp add: Cons getPointData_addPoint split: option.splits)
  next
    case (AddPointWithData j v x lvl)
    then show ?thesis
      by (simp add: Cons getPointData_addPointWithData most_recent_def map_add_def split: option.splits)
  qed
qed

text \<open>
  Claim C3.  \<open>searchKNNWithData(q, k)\<close> returns a list of the length of
  \<open>searchKNN(q, k)\<close>; its entry number \<open>n\<close> has the identifier and the score of entry
  number \<open>n\<close> of \<open>searchKNN(q, k)\<close>, and its data is \<open>getPointData\<close> of that identifier,
  which is the payload that the last completed \<open>addPointWithData\<close> of the history stored
  for it (what the table held before the history, when there is no such call).  When
  \<open>searchKNN\<close> fails, \<open>searchKNNWithData\<close> fails with the same error.
\<close>

theorem searchKNNWithData_entries:
  "case searchKNN (run calls h0) q k of
     Inl e \<Rightarrow> searchKNNWithData (run calls h0) q k = Inl e
   | Inr rs \<Rightarrow>
       (\<exists>rs'. searchKNNWithData (run calls h0) q k = Inr rs' \<and> length rs' = length rs \<and>
          (\<forall>n<length rs.
             id' (rs' ! n) = id' (rs ! n) \<and> score (rs' ! n) = score (rs ! n) \<and>
             data (rs' ! n) = getPointData (run calls h0) (id' (rs ! n)) \<and>
             data (rs' ! n) =
               (case most_recent (stored calls h0) (id' (rs ! n)) of
                  None \<Rightarrow> getPointData h0 (id' (rs ! n))
                | Some x \<Rightarrow> Some x)))"
  by (simp add: searchKNNWithData_def getPointData_run split: sum.splits)

text \<open>
  One point stored with the payload \<open>''a''\<close> under the Euclidean metric: the search for
  \<open>(2)\<close> finds it with score 1/2 and returns the payload.
\<close>

theorem searchKNNWithData_entries_witness:
  "\<exists>rs'. searchKNNWithData
            (run [AddPointWithData 0 [1] ''a'' 0] (HNSWWithDB_new None None None (Some Euclidean))) [2] 1 = Inr rs'
     \<and> length rs' = 1 \<and> id' (rs' ! 0) = 0 \<and> score (rs' ! 0) = 1 / 2 \<and> data (rs' ! 0) = Some ''a''"
proof -
  let ?h0 = "HNSWWithDB_new None None None (Some Euclidean) :: string hnsw_with_db"
  let ?calls = "[AddPointWithData 0 [1] ''a'' 0]"
  have s: "searchKNN (run ?calls ?h0) [2] 1 = Inr [\<lparr>id' = 0, score = 1 / 2\<rparr>]"
    by (simp add: Map_eval index_eval)
  have ok: "fst (addPointWithData ?h0 0 [1] ''a'' 0) = None"
    by (simp add: Map_eval index_eval)
  show ?thesis
    using searchKNNWithData_entries [of ?calls ?h0 "[2]" 1] unfolding s
    by (auto simp: ok most_recent_def)
qed

subsection \<open>Searches that find nothing\<close>

text \<open>
  Claim C7.  \<open>searchKNN(q, k)\<close> returns the empty list, and no error, whenever \<open>k \<le> 0\<close> or
  the graph has no nodes, for every state and every query.  \<open>searchKNN\<close> is a function of
  the state that returns a result only, so the call leaves the index as it is.
\<close>

theorem searchKNN_empty:
  assumes "k \<le> 0 \<or> Map_entries (nodes h) = []"
  shows "searchKNN h q k = Inr []"
  using assms by (auto simp: searchKNN_def)

text \<open>
  A search in a new instance, and searches with \<open>k = 0\<close> and \<open>k = -3\<close> in an index that
  holds a point, the last one with a query of the wrong length.
\<close>

theorem searchKNN_empty_witness:
  "searchKNN (HNSWWithDB_new None None None None :: string hnsw_with_db) [1] 5 = Inr []
   \<and> searchKNN (snd (addPoint (HNSWWithDB_new None None None None :: string hnsw_with_db) 0 [1] 0)) [1] 0 = Inr []
   \<and> searchKNN (snd (addPoint (HNSWWithDB_new None None None None :: string hnsw_with_db) 0 [1] 0)) [1, 2] (- 3) = Inr []"
proof -
  let ?h = "HNSWWithDB_new None None None None :: string hnsw_with_db"
  have e: "(5::int) \<le> 0 \<or> Map_entries (nodes ?h) = []"
    by (simp add: Map_eval index_eval)
  have z: "(0::int) \<le> 0 \<or> Map_entries (nodes (snd (addPoint ?h 0 [1] 0))) = []"
    by simp
  have n: "(- 3::int) \<le> 0 \<or> Map_entries (nodes (snd (addPoint ?h 0 [1] 0))) = []"
    by simp
  from searchKNN_empty [OF e] searchKNN_empty [OF z] searchKNN_empty [OF n] show ?thesis
    by simp
qed

subsection \<open>The round trip through the portable record\<close>

lemma db_toJSON: "jdb (toJSON h) = Some (Map_entries (db h))"
  by (simp add: toJSON_def hnsw_json.defs hnsw_with_db_json.defs Let_def)

lemma db_fromJSON:
  "db (fromJSON fround json) = (case jdb json of None \<Rightarrow> Map_new | Some es \<Rightarrow> Map_from_entries es)"
  by (simp add: fromJSON_def HNSWWithDB_new_def HNSW_init_def hnsw_with_db.defs Let_def split: option.splits)

lemma db_roundtrip: "db (fromJSON fround (toJSON h)) = db h"
  by (simp add: db_fromJSON db_toJSON Map_from_entries_entries)

text \<open>
  Claim C2.  The payload table survives the round trip through the portable record:
  \<open>fromJSON(toJSON(I)).getPointData(id)\<close> is \<open>I.getPointData(id)\<close> for every instance and
  every identifier; the field \<open>db\<close> of the record holds exactly the entries of the table,
  and \<open>fromJSON\<close> restores the table as it was.
\<close>

theorem payload_roundtrip:
  "getPointData (fromJSON fround (toJSON h)) i = getPointData h i
   \<and> (\<exists>es. jdb (toJSON h) = Some es \<and> (\<forall>j x. ((j, x) \<in> set es) = (getPointData h j = Some x)))
   \<and> db (fromJSON fround (toJSON h)) = db h"
proof -
  have "((j, x) \<in> set (Map_entries (db h))) = (getPointData h j = Some x)" for j x
    by (simp add: getPointData_def Map_get_def Map_entries_def lookup.rep_eq)
  then show ?thesis
    by (simp add: db_roundtrip db_toJSON getPointData_def)
qed

text \<open>
  Claim C9.  \<open>fromJSON\<close> builds the new instance from the fields \<open>M\<close> and
  \<open>efConstruction\<close> of the record alone: whatever the record says, and so whatever the
  metric and the dimension of the serialized index were, the result has the default metric
  cosine and \<open>d = null\<close>, while \<open>M\<close> and \<open>efConstruction\<close> are those of the serialized
  index.
\<close>

theorem fromJSON_default_metric_and_d:
  "metric (fromJSON fround json) = Cosine \<and> d (fromJSON fround json) = None
   \<and> metric (fromJSON fround (toJSON h)) = Cosine \<and> d (fromJSON fround (toJSON h)) = None
   \<and> M (fromJSON fround (toJSON h)) = M h
   \<and> efConstruction (fromJSON fround (toJSON h)) = efConstruction h"
  by (simp add: fromJSON_def toJSON_def HNSW_toJSON_def HNSWWithDB_new_def HNSW_init_def
      hnsw_json.defs hnsw_with_db_json.defs Let_def split: option.splits)

text \<open>
  When the vectors of the index are in single precision already, so that the rounding
  leaves them as they are, the round trip gives back the state it started from, but for
  the metric and the dimension, which \<open>fromJSON\<close> leaves at the defaults of the
  constructor.
\<close>

lemma fromJSON_toJSON:
  assumes "\<forall>(i, nd) \<in> set (Map_entries (nodes h)). map fround (vector nd) = vector nd"
  shows "fromJSON fround (toJSON h) = h\<lparr>d := None, metric := Cosine\<rparr>"
proof -
  have "map (\<lambda>(i, nd). (i, nd\<lparr>vector := Float32Array fround (vector nd)\<rparr>)) xs = xs"
    if "\<forall>(i, nd) \<in> set xs. map fround (vector nd) = vector nd" for xs :: "(int \<times> node) list"
    using that by (induction xs) (auto simp: Float32Array_def)
  from this [OF assms] show ?thesis
    by (cases h)
      (simp add: fromJSON_def toJSON_def HNSW_toJSON_def HNSWWithDB_new_def HNSW_init_def
        hnsw_json.defs hnsw_with_db_json.defs hnsw_with_db.defs Let_def Map_from_entries_entries)
qed

text \<open>
  For such an index under the cosine metric and a query of the dimension of the index,
  the round trip changes no search result.
\<close>

lemma searchKNN_roundtrip_cosine:
  assumes "\<forall>(i, nd) \<in> set (Map_entries (nodes h)). map fround (vector nd) = vector nd"
    and "metric h = Cosine" and "d h = None \<or> d h = Some (length q)"
  shows "searchKNN (fromJSON fround (toJSON h)) q k = searchKNN h q k"
  using assms(2,3) unfolding fromJSON_toJSON [OF assms(1)]
  by (auto simp: searchKNN_def split: option.splits sum.splits)

text \<open>
  Claim C1.  The claim is that \<open>fromJSON(toJSON(I)).searchKNN(q, k)\<close> equals
  \<open>I.searchKNN(q, k)\<close> for every index, under either metric.  \<open>fromJSON\<close> does not
  restore the metric: for the index built under the Euclidean metric from the point
  \<open>(1)\<close> with identifier 0, the query \<open>(2)\<close> scores \<open>1/2\<close> before the round trip and
  the cosine similarity after it, which is \<open>1\<close> since single precision holds the number 1
  exactly, and is not \<open>1/2\<close> whatever the rounding does.
\<close>

theorem fromJSON_changes_euclidean_search:
  "searchKNN (snd (addPointWithData (HNSWWithDB_new None None None (Some Euclidean)) 0 [1] ''a'' 0)) [2] 1
     = Inr [\<lparr>id' = 0, score = 1 / 2\<rparr>]
   \<and> (fround 1 = 1 \<longrightarrow>
        searchKNN (fromJSON fround (toJSON (snd (addPointWithData (HNSWWithDB_new None None None (Some Euclidean)) 0 [1] ''a'' 0)))) [2] 1
          = Inr [\<lparr>id' = 0, score = 1\<rparr>])
   \<and> searchKNN (fromJSON fround (toJSON (snd (addPointWithData (HNSWWithDB_new None None None (Some Euclidean)) 0 [1] ''a'' 0)))) [2] 1
     \<noteq> searchKNN (snd (addPointWithData (HNSWWithDB_new None None None (Some Euclidean)) 0 [1] ''a'' 0)) [2] 1
   \<and> metric (snd (addPointWithData (HNSWWithDB_new None None None (Some Euclidean)) 0 [1] ''a'' 0)) = Euclidean
   \<and> metric (fromJSON fround (toJSON (snd (addPointWithData (HNSWWithDB_new None None None (Some Euclidean)) 0 [1] ''a'' 0)))) = Cosine"
proof -
  let ?I = "snd (addPointWithData (HNSWWithDB_new None None None (Some Euclidean)) 0 [1] ''a'' 0) :: string hnsw_with_db"
  have before: "searchKNN ?I [2] 1 = Inr [\<lparr>id' = 0, score = 1 / 2\<rparr>]"
    by (simp add: Map_eval index_eval)
  have after: "searchKNN (fromJSON fround (toJSON ?I)) [2] 1
      = Inr [\<lparr>id' = 0, score = cosineSimilarity [2] [fround 1]\<rparr>]"
    by (simp add: Map_eval index_eval json_eval del: cosineSimilarity_def)
  have "cosineSimilarity [2] [fround 1] \<noteq> 1 / 2"
  proof (cases "fround 1 = 0")
    case True
    then show ?thesis
      by (simp add: cosineSimilarity_def dot_def)
  next
    case False
    then have "cosineSimilarity [2] [fround 1] = fround 1 / \<bar>fround 1\<bar>"
      by (simp add: cosineSimilarity_def dot_def)
    also have "\<dots> \<noteq> 1 / 2"
      using False by (cases "0 < fround 1") simp_all
    finally show ?thesis .
  qed
  moreover have "fround 1 = 1 \<Longrightarrow> cosineSimilarity [2] [fround 1] = 1"
    by (simp add: cosineSimilarity_def dot_def)
  moreover have "metric ?I = Euclidean" "metric (fromJSON fround (toJSON ?I)) = Cosine"
    by (simp_all add: Map_eval index_eval json_eval)
  ultimately show ?thesis
    unfolding before after by simp
qed

text \<open>
  The same for a rounding to the multiples of \<open>1 / 2 ^ 23\<close>, the numbers of single
  precision between 1 and 2.
\<close>

theorem fromJSON_changes_euclidean_search_witness:
  "searchKNN (snd (addPointWithData (HNSWWithDB_new None None None (Some Euclidean)) 0 [1] ''a'' 0)) [2] 1
     = Inr [\<lparr>id' = 0, score = 1 / 2\<rparr>]
   \<and> searchKNN (fromJSON (\<lambda>x. real_of_int (round (x * 2 ^ 23)) / 2 ^ 23)
         (toJSON (snd (addPointWithData (HNSWWithDB_new None None None (Some Euclidean)) 0 [1] ''a'' 0)))) [2] 1
     = Inr [\<lparr>id' = 0, score = 1\<rparr>]"
proof -
  have "(\<lambda>x. real_of_int (round (x * 2 ^ 23)) / 2 ^ 23) 1 = (1::real)"
    by simp
  with fromJSON_changes_euclidean_search [of "\<lambda>x. real_of_int (round (x * 2 ^ 23)) / 2 ^ 23"]
  show ?thesis
    by blast
qed

subsection \<open>Identifiers without payload\<close>





subsection \<open>Normalisation\<close>

lemma foldl_squares: "foldl (\<lambda>norm x. norm + x * x) a v = a + (\<Sum>x\<leftarrow>v. x * x)"
  by (induction v arbitrary: a) (simp_all add: add.assoc)

lemma sum_squares_nonneg: "0 \<le> (\<Sum>x\<leftarrow>v. x * x)" for v :: "real list"
  by (induction v) simp_all

lemma l2Normalize_eq:
  assumes "l2norm v \<noteq> 0"
  shows "l2Normalize v = map (\<lambda>x. x / l2norm v) v"
proof -
  from assms have "(\<Sum>x\<leftarrow>v. x * x) \<noteq> 0"
    by (auto simp: l2norm_def)
  then show ?thesis
    by (simp add: l2Normalize_def foldl_squares l2norm_def divide_inverse)
qed

lemma sum_squares_scaled: "(\<Sum>x\<leftarrow>v. (x / c) * (x / c)) = (\<Sum>x\<leftarrow>v. x * x) / (c * c)" for c :: real
  by (induction v) (simp_all add: add_divide_distrib)

text \<open>
  Claim C8.  For a vector \<open>v\<close> of nonzero Euclidean norm, \<open>l2Normalize(v)\<close> has the length
  of \<open>v\<close>, its components are those of \<open>v\<close> divided by the norm of \<open>v\<close>, and its norm
  is 1 (in exact real arithmetic).
\<close>

theorem l2Normalize_unit_length:
  assumes "l2norm v \<noteq> 0"
  shows "length (l2Normalize v) = length v
     \<and> (\<forall>n<length v. l2Normalize v ! n = v ! n / l2norm v)
     \<and> l2norm (l2Normalize v) = 1"
proof -
  let ?s = "\<Sum>x\<leftarrow>v. x * x"
  have eq: "l2Normalize v = map (\<lambda>x. x / l2norm v) v"
    using assms by (rule l2Normalize_eq)
  have pos: "0 < ?s"
    using assms sum_squares_nonneg [of v] by (auto simp: l2norm_def less_le)
  have "(\<Sum>x\<leftarrow>l2Normalize v. x * x) = (\<Sum>x\<leftarrow>v. (x / l2norm v) * (x / l2norm v))"
    by (simp add: eq o_def)
  also have "\<dots> = ?s / (l2norm v * l2norm v)"
    by (rule sum_squares_scaled)
  also have "l2norm v * l2norm v = ?s"
    using pos by (simp add: l2norm_def)
  finally have "(\<Sum>x\<leftarrow>l2Normalize v. x * x) = 1"
    using pos by simp
  then have "l2norm (l2Normalize v) = 1"
    by (simp add: l2norm_def)
  with eq show ?thesis
    by simp
qed

text \<open>The vector \<open>(3, 4)\<close> has norm 5 and is normalised to \<open>(3/5, 4/5)\<close>.\<close>

theorem l2Normalize_unit_length_witness:
  "l2norm [3, 4] \<noteq> 0 \<and> length (l2Normalize [3, 4]) = 2
   \<and> l2Normalize [3, 4] ! 0 = 3 / 5 \<and> l2Normalize [3, 4] ! 1 = 4 / 5
   \<and> l2norm (l2Normalize [3, 4]) = 1"
proof -
  have n: "l2norm [3, 4] = 5"
    by (simp add: l2norm_def)
  then have h: "l2norm [3, 4] \<noteq> 0"
    by simp
  note t = l2Normalize_unit_length [OF h]
  from t have "l2Normalize [3, 4] ! 0 = [3, 4] ! 0 / l2norm [3, 4]"
    and "l2Normalize [3, 4] ! 1 = [3, 4] ! 1 / l2norm [3, 4]"
    by simp_all
  with t h n show ?thesis
    by simp
qed

end
